theory Spec2Isabelle
  imports Complex_Main "HOL-Library.Extended_Nat" "HOL-Library.Monad_Syntax"
begin

section \<open>Python strings\<close>

text \<open>
  A Python \<open>str\<close> is modelled as a \<open>string\<close>, a list of 8-bit characters read as the code
  points 0..255. The helpers below are the built-ins that \<open>app/reports.py\<close> and
  \<open>app/schemas.py\<close> call on such strings, restricted to that range.
\<close>

definition is_space :: "char \<Rightarrow> bool" where
  \<comment> \<open>the code points below 256 that \<open>str.strip()\<close> and \<open>int()\<close> treat as whitespace\<close>
  "is_space c =
     (let n = (of_char c :: nat)
      in (9 \<le> n \<and> n \<le> 13) \<or> (28 \<le> n \<and> n \<le> 32) \<or> n = 133 \<or> n = 160)"

definition is_digit :: "char \<Rightarrow> bool" where
  \<comment> \<open>the decimal digits \<open>\d\<close> and \<open>int()\<close> accept below code point 256\<close>
  "is_digit c = (let n = (of_char c :: nat) in 48 \<le> n \<and> n \<le> 57)"

definition digit_value :: "char \<Rightarrow> int" where
  "digit_value c = int (of_char c) - 48"

definition py_strip :: "string \<Rightarrow> string" where
  \<comment> \<open>\<open>s.strip()\<close>\<close>
  "py_strip s = rev (dropWhile is_space (rev (dropWhile is_space s)))"

definition lower_char :: "char \<Rightarrow> char" where
  "lower_char c =
     (let n = (of_char c :: nat)
      in if (65 \<le> n \<and> n \<le> 90) \<or> (192 \<le> n \<and> n \<le> 222 \<and> n \<noteq> 215)
         then char_of (n + 32) else c)"

definition py_lower :: "string \<Rightarrow> string" where
  \<comment> \<open>\<open>s.lower()\<close>\<close>
  "py_lower s = map lower_char s"

fun split_acc :: "char \<Rightarrow> string \<Rightarrow> string \<Rightarrow> string list" where
  "split_acc sep cur [] = [rev cur]"
| "split_acc sep cur (c # cs) =
     (if c = sep then rev cur # split_acc sep [] cs else split_acc sep (c # cur) cs)"

definition py_split :: "char \<Rightarrow> string \<Rightarrow> string list" where
  \<comment> \<open>\<open>s.split(sep)\<close> for a one-character separator\<close>
  "py_split sep s = split_acc sep [] s"

fun startswith :: "string \<Rightarrow> string \<Rightarrow> bool" where
  \<comment> \<open>\<open>startswith p s\<close> is \<open>s.startswith(p)\<close>\<close>
  "startswith [] s = True"
| "startswith (p # ps) [] = False"
| "startswith (p # ps) (c # cs) = (p = c \<and> startswith ps cs)"

fun contains :: "string \<Rightarrow> string \<Rightarrow> bool" where
  \<comment> \<open>\<open>contains p s\<close> is \<open>p in s\<close>\<close>
  "contains p [] = startswith p []"
| "contains p (c # cs) = (startswith p (c # cs) \<or> contains p cs)"

subsection \<open>The built-in \<open>int\<close> on a string\<close>

fun int_body :: "string \<Rightarrow> bool" where
  \<comment> \<open>digits, with single underscores allowed between two digits\<close>
  "int_body [] = False"
| "int_body [c] = is_digit c"
| "int_body (c # d # cs) =
     (is_digit c \<and> (if d = CHR ''_'' then int_body cs else int_body (d # cs)))"

definition int_max_str_digits :: nat where
  \<comment> \<open>CPython's default limit on the digits of a decimal string conversion\<close>
  "int_max_str_digits = 4300"

definition digits_value :: "string \<Rightarrow> int" where
  "digits_value ds = foldl (\<lambda>acc c. 10 * acc + digit_value c) 0 (filter is_digit ds)"

definition py_int :: "string \<Rightarrow> int option" where
  \<comment> \<open>\<open>int(s)\<close>; \<open>None\<close> is \<open>ValueError\<close>\<close>
  "py_int s =
     (let t = py_strip s;
          (neg, body) = (case t of
                           [] \<Rightarrow> (False, [])
                         | c # r \<Rightarrow> if c = CHR ''-'' then (True, r)
                                    else if c = CHR ''+'' then (False, r)
                                    else (False, t))
      in if int_body body \<and> length (filter is_digit body) \<le> int_max_str_digits
         then Some (if neg then - digits_value body else digits_value body)
         else None)"

section \<open>Geo/time helpers of \<open>app/reports.py\<close>\<close>

subsection \<open>\<open>time_difference\<close>\<close>

definition drop_fraction :: "string \<Rightarrow> string option" where
  \<comment> \<open>\<open>str(t).split('.')[0]\<close>; \<open>None\<close> is \<open>IndexError\<close>\<close>
  "drop_fraction t = (case py_split CHR ''.'' t of [] \<Rightarrow> None | p # _ \<Rightarrow> Some p)"

definition parse_hms :: "string \<Rightarrow> (int \<times> int \<times> int) option" where
  \<comment> \<open>\<open>h, m, s = map(int, t.split(':'))\<close>; \<open>None\<close> is \<open>ValueError\<close>\<close>
  "parse_hms t =
     (case py_split CHR '':'' t of
        [a, b, c] \<Rightarrow>
          do { h \<leftarrow> py_int a; m \<leftarrow> py_int b; s \<leftarrow> py_int c; Some (h, m, s) }
      | _ \<Rightarrow> None)"

definition time_difference_try :: "string \<Rightarrow> string \<Rightarrow> int option" where
  \<comment> \<open>the body of the \<open>try\<close> block; \<open>None\<close> when it raises\<close>
  "time_difference_try time1 time2 =
     do {
       t1 \<leftarrow> drop_fraction time1;
       t2 \<leftarrow> drop_fraction time2;
       (h1, m1, s1) \<leftarrow> parse_hms t1;
       (h2, m2, s2) \<leftarrow> parse_hms t2;
       let total_seconds1 = h1 * 3600 + m1 * 60 + s1;
       let total_seconds2 = h2 * 3600 + m2 * 60 + s2;
       Some \<bar>total_seconds1 - total_seconds2\<bar>
     }"

definition time_difference :: "string \<Rightarrow> string \<Rightarrow> enat" where
  \<comment> \<open>the \<open>except\<close> branch returns \<open>float('inf')\<close>, here \<open>\<infinity>\<close>\<close>
  "time_difference time1 time2 =
     (case time_difference_try time1 time2 of
        Some d \<Rightarrow> enat (nat d)
      | None \<Rightarrow> \<infinity>)"

subsection \<open>\<open>get_comm_state_value\<close>\<close>

definition get_comm_state_value :: "string \<Rightarrow> nat" where
  "get_comm_state_value comm_state =
     (let cs = py_lower (py_strip comm_state)
      in if contains ''loud and clear'' cs then 3
         else if contains ''readable noisy'' cs then 2
         else if contains ''noisy'' cs then 1
         else 0)"

subsection \<open>\<open>haversine_distance\<close>\<close>

text \<open>
  Python floats are modelled as real numbers: rounding is not part of the model. The
  functions of the \<open>math\<close> module are the real functions of the same name;
  \<open>math.sqrt\<close> raises \<open>ValueError\<close> on a negative argument, which is kept as a result.
\<close>

datatype py_error = ValueError | ZeroDivisionError | IntegrityError

definition radians :: "real \<Rightarrow> real" where
  "radians d = d * pi / 180"

definition py_sqrt :: "real \<Rightarrow> py_error + real" where
  "py_sqrt x = (if x < 0 then Inl ValueError else Inr (sqrt x))"

definition atan2 :: "real \<Rightarrow> real \<Rightarrow> real" where
  \<comment> \<open>\<open>math.atan2(y, x)\<close>\<close>
  "atan2 y x =
     (if 0 < x then arctan (y / x)
      else if x < 0 then (if 0 \<le> y then arctan (y / x) + pi else arctan (y / x) - pi)
      else if 0 < y then pi / 2
      else if y < 0 then - (pi / 2)
      else 0)"

definition haversine_a :: "real \<Rightarrow> real \<Rightarrow> real \<Rightarrow> real \<Rightarrow> real" where
  \<comment> \<open>the local \<open>a\<close> of \<open>haversine_distance\<close>\<close>
  "haversine_a lat1 lon1 lat2 lon2 =
     (let lat1_rad = radians lat1;
          lat2_rad = radians lat2;
          delta_lat = radians (lat2 - lat1);
          delta_lon = radians (lon2 - lon1)
      in sin (delta_lat / 2) * sin (delta_lat / 2) +
         cos lat1_rad * cos lat2_rad * sin (delta_lon / 2) * sin (delta_lon / 2))"

definition haversine_distance :: "real \<Rightarrow> real \<Rightarrow> real \<Rightarrow> real \<Rightarrow> py_error + real" where
  "haversine_distance lat1 lon1 lat2 lon2 =
     (let R = 6371000;
          a = haversine_a lat1 lon1 lat2 lon2
      in case py_sqrt a of
           Inl e \<Rightarrow> Inl e
         | Inr sa \<Rightarrow>
             (case py_sqrt (1 - a) of
                Inl e \<Rightarrow> Inl e
              | Inr sb \<Rightarrow> Inr (R * (2 * atan2 sa sb))))"

section \<open>The stored sample of \<open>app/models.py\<close>\<close>

text \<open>
  One row of \<open>location_samples\<close>. The columns \<open>server_id\<close> and \<open>received_at\<close> are filled
  by column defaults (a fresh UUID, the clock) when a row is flushed; nothing below reads
  them and the record leaves them out.
\<close>

record LocationSample =
  client_id :: string
  lat :: real
  lon :: real
  acc_m :: real
  sample_date :: string
  sample_time :: string
  captured_at_utc :: int
  provider :: string
  freq :: string
  rf_pwr :: string
  comm_state :: string
  user :: string
  station :: string
  device_id :: string
  sync :: bool
  attempt_count :: int
  last_error :: "string option"
  synced_at_utc :: "int option"
  processed :: bool

section \<open>The station matcher and report of \<open>app/reports.py\<close>\<close>






datatype detail =
    InvalidDateFormat
  | NoDataForCriteria
  | NoDataForStations string string
  | NoMatchingTimePairs "string list" "string list"
  | ReportGenerationFailed py_error
  | TooManySamples nat
  | InternalServerError

datatype exn = HTTPException nat detail | PyError py_error








section \<open>Bulk ingest: \<open>app/schemas.py\<close>, \<open>app/crud.py\<close>, \<open>app/main.py\<close>\<close>

subsection \<open>The request schema\<close>

record LocationSampleBase =
  id_in :: string
  lat_in :: real
  lon_in :: real
  acc_in :: real
  sample_date_in :: string
  sample_time_in :: string
  provider_in :: string
  freq_in :: string
  rf_pwr_in :: string
  comm_state_in :: string
  user_in :: string
  station_in :: string
  captured_at_utc_in :: int
  sync_in :: bool
  attempt_count_in :: int
  last_error_in :: "string option"
  synced_at_utc_in :: "int option"

record BulkUploadRequest =
  deviceId :: string
  samples :: "LocationSampleBase list"

definition before_final_newline :: "string \<Rightarrow> string" where
  \<comment> \<open>a pattern's \<open>$\<close> also matches just before a newline that ends the string\<close>
  "before_final_newline v = (if v \<noteq> [] \<and> last v = CHR 0x0A then butlast v else v)"

definition date_format_ok :: "string \<Rightarrow> bool" where
  \<comment> \<open>\<open>re.match(r'^\d{4}-\d{2}-\d{2}$', v)\<close>\<close>
  "date_format_ok v =
     (case before_final_newline v of
        [y1, y2, y3, y4, h1, m1, m2, h2, d1, d2] \<Rightarrow>
          is_digit y1 \<and> is_digit y2 \<and> is_digit y3 \<and> is_digit y4 \<and> h1 = CHR ''-'' \<and>
          is_digit m1 \<and> is_digit m2 \<and> h2 = CHR ''-'' \<and> is_digit d1 \<and> is_digit d2
      | _ \<Rightarrow> False)"

definition time_format_ok :: "string \<Rightarrow> bool" where
  \<comment> \<open>\<open>re.match(r'^\d{2}:\d{2}:\d{2}$', v)\<close>\<close>
  "time_format_ok v =
     (case before_final_newline v of
        [h1, h2, c1, m1, m2, c2, s1, s2] \<Rightarrow>
          is_digit h1 \<and> is_digit h2 \<and> c1 = CHR '':'' \<and> is_digit m1 \<and> is_digit m2 \<and>
          c2 = CHR '':'' \<and> is_digit s1 \<and> is_digit s2
      | _ \<Rightarrow> False)"

datatype field_error =
    LatOutOfRange | LonOutOfRange | AccNegative | BadDateFormat | BadTimeFormat
  | CapturedAtNegative

definition validate_sample :: "LocationSampleBase \<Rightarrow> field_error list" where
  \<comment> \<open>the \<open>Field\<close> bounds and the two validators of \<open>LocationSampleBase\<close>, in field order\<close>
  "validate_sample s =
     (if - 90 \<le> lat_in s \<and> lat_in s \<le> 90 then [] else [LatOutOfRange]) @
     (if - 180 \<le> lon_in s \<and> lon_in s \<le> 180 then [] else [LonOutOfRange]) @
     (if 0 \<le> acc_in s then [] else [AccNegative]) @
     (if date_format_ok (sample_date_in s) then [] else [BadDateFormat]) @
     (if time_format_ok (sample_time_in s) then [] else [BadTimeFormat]) @
     (if 0 \<le> captured_at_utc_in s then [] else [CapturedAtNegative])"

datatype validation_error = TooManyItems nat | ItemError nat field_error

fun validate_items :: "nat \<Rightarrow> LocationSampleBase list \<Rightarrow> validation_error list" where
  "validate_items i [] = []"
| "validate_items i (s # ss) = map (ItemError i) (validate_sample s) @ validate_items (i + 1) ss"


subsection \<open>The session and \<open>create_location_samples_bulk\<close>\<close>

text \<open>
  The committed table is a list of rows. The session is created with \<open>autoflush=False\<close>,
  so rows passed to \<open>db.add\<close> stay pending, invisible to queries, until \<open>db.commit()\<close>
  flushes them; the table's unique constraint on \<open>client_id\<close> is checked at each insert
  of the flush, and a violation rolls the whole transaction back. Losing the database
  connection is outside the model, so no statement of the loop body raises and the
  \<open>except\<close> branch that appends to \<open>failed_samples\<close> has no counterpart: the list is
  carried along and stays as it is.
\<close>

definition new_row :: "string \<Rightarrow> LocationSampleBase \<Rightarrow> LocationSample" where
  \<comment> \<open>the constructor call \<open>models.LocationSample(...)\<close>\<close>
  "new_row dev sample_data =
     \<lparr> client_id = id_in sample_data,
       lat = lat_in sample_data,
       lon = lon_in sample_data,
       acc_m = acc_in sample_data,
       sample_date = sample_date_in sample_data,
       sample_time = sample_time_in sample_data,
       captured_at_utc = captured_at_utc_in sample_data,
       provider = provider_in sample_data,
       freq = freq_in sample_data,
       rf_pwr = rf_pwr_in sample_data,
       comm_state = comm_state_in sample_data,
       user = user_in sample_data,
       station = station_in sample_data,
       device_id = dev,
       sync = (sync_in sample_data \<or> False),
       attempt_count = (if attempt_count_in sample_data \<noteq> 0 then attempt_count_in sample_data else 0),
       last_error = last_error_in sample_data,
       synced_at_utc = synced_at_utc_in sample_data,
       processed = False \<rparr>"

record ingest_state =
  successful_ids :: "string list"
  failed_samples :: "(string \<times> string) list"
  pending :: "LocationSample list"

definition ingest_item ::
  "LocationSample list \<Rightarrow> string \<Rightarrow> LocationSampleBase \<Rightarrow> ingest_state \<Rightarrow> ingest_state" where
  \<comment> \<open>one pass of the loop body; the lookup reads the committed table only\<close>
  "ingest_item table dev sample_data st =
     (case find (\<lambda>r. client_id r = id_in sample_data) table of
        Some existing \<Rightarrow> st\<lparr>successful_ids := successful_ids st @ [id_in sample_data]\<rparr>
      | None \<Rightarrow>
          st\<lparr>pending := pending st @ [new_row dev sample_data],
             successful_ids := successful_ids st @ [id_in sample_data]\<rparr>)"

fun ingest_loop ::
  "LocationSample list \<Rightarrow> string \<Rightarrow> LocationSampleBase list \<Rightarrow> ingest_state \<Rightarrow> ingest_state" where
  "ingest_loop table dev [] st = st"
| "ingest_loop table dev (sample_data # rest) st =
     ingest_loop table dev rest (ingest_item table dev sample_data st)"

fun commit :: "LocationSample list \<Rightarrow> LocationSample list \<Rightarrow> py_error + LocationSample list" where
  \<comment> \<open>\<open>db.commit()\<close>: insert the pending rows in order under the unique constraint\<close>
  "commit table [] = Inr table"
| "commit table (r # rs) =
     (if client_id r \<in> set (map client_id table) then Inl IntegrityError
      else commit (table @ [r]) rs)"

datatype crud_error = TransactionFailed py_error

definition create_location_samples_bulk ::
  "LocationSample list \<Rightarrow> LocationSampleBase list \<Rightarrow> string
   \<Rightarrow> LocationSample list \<times> (crud_error + string list \<times> (string \<times> string) list)" where
  \<comment> \<open>returns the table after the call and what the call returns or raises\<close>
  "create_location_samples_bulk table sample_list dev =
     (let st = ingest_loop table dev sample_list
                 \<lparr>successful_ids = [], failed_samples = [], pending = []\<rparr>
      in case commit table (pending st) of
           Inr table' \<Rightarrow> (table', Inr (successful_ids st, failed_samples st))
         | Inl e \<Rightarrow> (table, Inl (TransactionFailed e)))"

subsection \<open>The endpoint \<open>POST /locations/bulk\<close>\<close>

record bulk_response =
  status :: string
  synced_ids :: "string list"
  failed_count :: nat


definition bulk_upload_try ::
  "LocationSample list \<Rightarrow> BulkUploadRequest \<Rightarrow> LocationSample list \<times> (exn + bulk_response)" where
  \<comment> \<open>the \<open>try\<close> block of \<open>bulk_upload_locations\<close>; the exception of the ingest call is
      kept as \<open>PyError\<close> of its cause\<close>
  "bulk_upload_try table request =
     (if length (samples request) > 1000
      then (table, Inl (HTTPException 400 (TooManySamples (length (samples request)))))
      else case create_location_samples_bulk table (samples request) (deviceId request) of
             (table', Inl (TransactionFailed e)) \<Rightarrow> (table', Inl (PyError e))
           | (table', Inr (ids, failed)) \<Rightarrow>
               (table', Inr \<lparr> status = ''success'', synced_ids = ids,
                               failed_count = length failed \<rparr>))"

definition bulk_upload_locations ::
  "LocationSample list \<Rightarrow> BulkUploadRequest \<Rightarrow> LocationSample list \<times> (exn + bulk_response)" where
  \<comment> \<open>\<open>except Exception\<close> turns whatever the block raised into status 500\<close>
  "bulk_upload_locations table request =
     (case bulk_upload_try table request of
        (table', Inl e) \<Rightarrow> (table', Inl (HTTPException 500 InternalServerError))
      | (table', Inr response) \<Rightarrow> (table', Inr response))"


section \<open>Notions used to state the properties\<close>

definition occurs_in :: "string \<Rightarrow> string \<Rightarrow> bool" where
  \<comment> \<open>\<open>p\<close> is a contiguous substring of \<open>s\<close>\<close>
  "occurs_in p s = (\<exists>pre suf. s = pre @ p @ suf)"

definition two_digits :: "nat \<Rightarrow> string" where
  \<comment> \<open>a number below 100 written with exactly two decimal digits\<close>
  "two_digits n = [char_of (48 + n div 10), char_of (48 + n mod 10)]"

definition hms :: "nat \<Rightarrow> nat \<Rightarrow> nat \<Rightarrow> string" where
  \<comment> \<open>the text \<open>HH:MM:SS\<close>\<close>
  "hms h m s = two_digits h @ '':'' @ two_digits m @ '':'' @ two_digits s"

definition seconds_since_midnight :: "nat \<Rightarrow> nat \<Rightarrow> nat \<Rightarrow> int" where
  "seconds_since_midnight h m s = int h * 3600 + int m * 60 + int s"









section \<open>Substring search and the comm-state score\<close>

lemma eq_char_of_iff: "c = char_of (n::nat) \<longleftrightarrow> of_char c = n mod 256"
  by (metis char_of_char char_of_mod_256 of_char_of)

lemma startswith_iff: "startswith p s \<longleftrightarrow> (\<exists>suf. s = p @ suf)"
  by (induction p s rule: startswith.induct) auto

lemma contains_iff: "contains p s \<longleftrightarrow> occurs_in p s"
proof (induction s)
  case Nil
  show ?case by (cases p) (auto simp: occurs_in_def)
next
  case (Cons c cs)
  have "occurs_in p (c # cs) \<longleftrightarrow> (\<exists>suf. c # cs = p @ suf) \<or> occurs_in p cs"
    unfolding occurs_in_def
  proof (intro iffI; elim exE disjE)
    fix pre suf assume h: "c # cs = pre @ p @ suf"
    show "(\<exists>suf. c # cs = p @ suf) \<or> (\<exists>pre suf. cs = pre @ p @ suf)"
    proof (cases pre)
      case Nil
      with h show ?thesis by auto
    next
      case (Cons a pre')
      with h have "cs = pre' @ p @ suf" by simp
      then show ?thesis by blast
    qed
  next
    fix suf assume "c # cs = p @ suf"
    then have "c # cs = [] @ p @ suf" by simp
    then show "\<exists>pre suf. c # cs = pre @ p @ suf" by blast
  next
    fix pre suf assume "cs = pre @ p @ suf"
    then have "c # cs = (c # pre) @ p @ suf" by simp
    then show "\<exists>pre suf. c # cs = pre @ p @ suf" by blast
  qed
  with Cons show ?case by (simp add: startswith_iff)
qed

lemma occurs_in_rev: "occurs_in (rev p) (rev s) = occurs_in p s"
proof -
  have a: "occurs_in (rev p) (rev s)" if "occurs_in p s" for p s :: string
  proof -
    from that obtain pre suf where "s = pre @ p @ suf" by (auto simp: occurs_in_def)
    then have "rev s = rev suf @ rev p @ rev pre" by simp
    then show ?thesis unfolding occurs_in_def by blast
  qed
  show ?thesis using a [of p s] a [of "rev p" "rev s"] by auto
qed

lemma contains_dropWhile:
  "\<not> P p0 \<Longrightarrow> contains (p0 # ps) (dropWhile P s) = contains (p0 # ps) s"
  by (induction s) auto

lemma occurs_in_strip:
  assumes "p \<noteq> []" "\<not> is_space (hd p)" "\<not> is_space (last p)"
  shows "occurs_in p (py_strip s) = occurs_in p s"
proof -
  obtain p0 ps where p: "p = p0 # ps" using assms(1) by (cases p) auto
  obtain q0 qs where q: "rev p = q0 # qs" using assms(1) by (cases "rev p") auto
  have q0: "\<not> is_space q0" using q assms(1,3) by (metis hd_rev list.sel(1))
  have p0: "\<not> is_space p0" using p assms(2) by simp
  have "occurs_in p (py_strip s) =
        occurs_in (rev p) (dropWhile is_space (rev (dropWhile is_space s)))"
    unfolding py_strip_def by (metis occurs_in_rev rev_rev_ident)
  also have "\<dots> = occurs_in (rev p) (rev (dropWhile is_space s))"
    unfolding q using contains_dropWhile [of is_space q0, OF q0]
    by (simp add: contains_iff [symmetric])
  also have "\<dots> = occurs_in p (dropWhile is_space s)" by (rule occurs_in_rev)
  also have "\<dots> = occurs_in p s"
    unfolding p using contains_dropWhile [of is_space p0, OF p0]
    by (simp add: contains_iff [symmetric])
  finally show ?thesis .
qed

lemma is_space_lower_char: "is_space (lower_char c) = is_space c"
  unfolding is_space_def lower_char_def Let_def by auto

lemma lower_dropWhile:
  "map lower_char (dropWhile is_space s) = dropWhile is_space (map lower_char s)"
  by (induction s) (auto simp: is_space_lower_char)

lemma py_lower_strip: "py_lower (py_strip s) = py_strip (py_lower s)"
  unfolding py_lower_def py_strip_def by (simp add: lower_dropWhile rev_map [symmetric])

text \<open>
  Claim C6. \<open>get_comm_state_value\<close> classifies the lower-cased text by substring
  containment in priority order: ``loud and clear'' gives 3, else ``readable noisy''
  gives 2, else ``noisy'' gives 1, else 0 (the \<open>strip()\<close> the code also applies changes
  nothing, since no phrase starts or ends with whitespace); and
  ``readable noisy signal'' scores 2, not 1.
\<close>

theorem comm_state_priority:
  "get_comm_state_value text =
     (if occurs_in ''loud and clear'' (py_lower text) then 3
      else if occurs_in ''readable noisy'' (py_lower text) then 2
      else if occurs_in ''noisy'' (py_lower text) then 1
      else 0)
   \<and> get_comm_state_value ''readable noisy signal'' = 2"
proof
  have s: "\<not> is_space CHR ''l''" "\<not> is_space CHR ''r''" "\<not> is_space CHR ''n''"
    "\<not> is_space CHR ''y''"
    by (simp_all add: is_space_def)
  show "get_comm_state_value text =
     (if occurs_in ''loud and clear'' (py_lower text) then 3
      else if occurs_in ''readable noisy'' (py_lower text) then 2
      else if occurs_in ''noisy'' (py_lower text) then 1
      else 0)"
    unfolding get_comm_state_value_def Let_def contains_iff py_lower_strip
    by (simp add: occurs_in_strip s)
  show "get_comm_state_value ''readable noisy signal'' = 2"
    by (simp add: get_comm_state_value_def py_lower_def py_strip_def is_space_def
        lower_char_def)
qed

theorem comm_state_priority_witness:
  "occurs_in ''readable noisy'' (py_lower '' Readable NOISY, weak'')
   \<and> occurs_in ''noisy'' (py_lower '' Readable NOISY, weak'')
   \<and> get_comm_state_value '' Readable NOISY, weak'' = 2"
proof -
  have a: "occurs_in ''readable noisy'' (py_lower '' Readable NOISY, weak'')"
    unfolding contains_iff [symmetric] by (simp add: py_lower_def lower_char_def eq_char_of_iff)
  have b: "occurs_in ''noisy'' (py_lower '' Readable NOISY, weak'')"
    unfolding contains_iff [symmetric] by (simp add: py_lower_def lower_char_def eq_char_of_iff)
  have c: "\<not> occurs_in ''loud and clear'' (py_lower '' Readable NOISY, weak'')"
    unfolding contains_iff [symmetric] by (simp add: py_lower_def lower_char_def eq_char_of_iff)
  show ?thesis
    using comm_state_priority [of "'' Readable NOISY, weak''"] a b c by simp
qed

section \<open>\<open>time_difference\<close> on well-formed times\<close>

lemma split_acc_no_sep:
  "sep \<notin> set xs \<Longrightarrow> split_acc sep cur (xs @ ys) = split_acc sep (rev xs @ cur) ys"
  by (induction xs arbitrary: cur) auto

lemma two_digits_chars:
  assumes "n < 100"
  obtains c1 c2 k1 k2 where "two_digits n = [c1, c2]"
    "(of_char c1 :: nat) = 48 + k1" "(of_char c2 :: nat) = 48 + k2"
    "k1 < 10" "k2 < 10" "n = 10 * k1 + k2"
proof -
  have a: "n div 10 < 10" "n mod 10 < 10" using assms by auto
  show ?thesis
    by (rule that [of "char_of (48 + n div 10)" "char_of (48 + n mod 10)" "n div 10" "n mod 10"])
       (use a in \<open>simp_all add: two_digits_def\<close>)
qed

lemma two_digits_no_sep:
  assumes "n < 100" "(of_char sep :: nat) < 48 \<or> 57 < (of_char sep :: nat)"
  shows "sep \<notin> set (two_digits n)"
proof
  assume m: "sep \<in> set (two_digits n)"
  from assms(1) obtain c1 c2 k1 k2 where c: "two_digits n = [c1, c2]"
    "(of_char c1 :: nat) = 48 + k1" "(of_char c2 :: nat) = 48 + k2" "k1 < 10" "k2 < 10"
    by (rule two_digits_chars)
  from m c(1) have "sep = c1 \<or> sep = c2" by simp
  then have "(of_char sep :: nat) = 48 + k1 \<or> (of_char sep :: nat) = 48 + k2"
    using c(2,3) by blast
  with assms(2) c(4,5) show False by linarith
qed

lemma py_int_two_digits:
  assumes "n < 100"
  shows "py_int (two_digits n) = Some (int n)"
proof -
  from assms obtain c1 c2 k1 k2 where c: "two_digits n = [c1, c2]"
    and o1: "(of_char c1 :: nat) = 48 + k1" and o2: "(of_char c2 :: nat) = 48 + k2"
    and a: "k1 < 10" "k2 < 10" and n: "n = 10 * k1 + k2"
    by (rule two_digits_chars)
  have d: "is_digit c1" "is_digit c2" "\<not> is_space c1" "\<not> is_space c2"
    using a by (auto simp add: is_digit_def is_space_def o1 o2)
  have ne: "c1 \<noteq> CHR ''-''" "c1 \<noteq> CHR ''+''" "c2 \<noteq> CHR ''_''"
  proof -
    have "(of_char CHR ''-'' :: nat) = 45" "(of_char CHR ''+'' :: nat) = 43"
      "(of_char CHR ''_'' :: nat) = 95"
      by simp_all
    then show "c1 \<noteq> CHR ''-''" "c1 \<noteq> CHR ''+''" "c2 \<noteq> CHR ''_''"
      using o1 o2 a by fastforce+
  qed
  have strip: "py_strip [c1, c2] = [c1, c2]"
    using d by (simp add: py_strip_def)
  have v: "digits_value [c1, c2] = int n"
    using d by (simp add: digits_value_def digit_value_def o1 o2 n)
  show ?thesis
    unfolding c using d ne v by (simp add: py_int_def strip int_max_str_digits_def)
qed

lemma py_split_hms:
  assumes "h < 100" "m < 100" "s < 100"
  shows "py_split CHR '':'' (hms h m s) = [two_digits h, two_digits m, two_digits s]"
proof -
  have n: "CHR '':'' \<notin> set (two_digits h)" "CHR '':'' \<notin> set (two_digits m)"
    "CHR '':'' \<notin> set (two_digits s)"
    using assms by (simp_all add: two_digits_no_sep)
  have "split_acc CHR '':'' [] (two_digits h @ CHR '':'' # two_digits m @ CHR '':'' # two_digits s @ [])
      = [two_digits h, two_digits m, two_digits s]"
    by (simp only: split_acc_no_sep [OF n(1)] split_acc_no_sep [OF n(2)]
        split_acc_no_sep [OF n(3)] split_acc.simps) simp
  then show ?thesis by (simp add: py_split_def hms_def)
qed

lemma parse_hms_hms:
  assumes "h < 100" "m < 100" "s < 100"
  shows "parse_hms (hms h m s) = Some (int h, int m, int s)"
  using assms by (simp add: parse_hms_def py_split_hms py_int_two_digits)

lemma hms_no_dot:
  assumes "h < 100" "m < 100" "s < 100"
  shows "CHR ''.'' \<notin> set (hms h m s)"
  using assms by (simp add: hms_def two_digits_no_sep)

lemma split_acc_first:
  "\<exists>r. split_acc sep cur t = (rev cur @ takeWhile (\<lambda>c. c \<noteq> sep) t) # r"
proof (induction t arbitrary: cur)
  case Nil
  show ?case by simp
next
  case (Cons a t)
  show ?case using Cons [of "a # cur"] by auto
qed

lemma drop_fraction_takeWhile: "drop_fraction t = Some (takeWhile (\<lambda>c. c \<noteq> CHR ''.'') t)"
  using split_acc_first [of "CHR ''.''" "[]" t]
  by (auto simp: drop_fraction_def py_split_def)

lemma drop_fraction_hms:
  assumes "h < 100" "m < 100" "s < 100" "sfx = [] \<or> hd sfx = CHR ''.''"
  shows "drop_fraction (hms h m s @ sfx) = Some (hms h m s)"
proof -
  have "takeWhile (\<lambda>c. c \<noteq> CHR ''.'') (hms h m s @ sfx) = hms h m s"
  proof (cases sfx)
    case Nil
    then show ?thesis using hms_no_dot [OF assms(1-3)] by auto
  next
    case (Cons a r)
    then have "a = CHR ''.''" using assms(4) by simp
    then show ?thesis using Cons hms_no_dot [OF assms(1-3)]
      by (auto simp: takeWhile_tail)
  qed
  then show ?thesis by (simp add: drop_fraction_takeWhile)
qed

lemma char_of_eq_iff': "char_of (n::nat) = c \<longleftrightarrow> of_char c = n mod 256"
  using eq_char_of_iff [of c n] by auto


text \<open>
  Claim C7. \<open>time_difference\<close> drops a fractional-seconds suffix that starts at a
  \<open>.\<close>, reads both arguments as \<open>HH:MM:SS\<close> into seconds since midnight and returns the
  absolute difference of the two, with no correction across midnight; for
  \<open>23:59:59\<close> and \<open>00:00:01\<close> the result is 86398 seconds.
\<close>

theorem time_difference_hms:
  assumes "h1 < 100" "m1 < 100" "s1 < 100" "h2 < 100" "m2 < 100" "s2 < 100"
    and "sfx1 = [] \<or> hd sfx1 = CHR ''.''" and "sfx2 = [] \<or> hd sfx2 = CHR ''.''"
  shows "time_difference (hms h1 m1 s1 @ sfx1) (hms h2 m2 s2 @ sfx2) =
           enat (nat \<bar>seconds_since_midnight h1 m1 s1 - seconds_since_midnight h2 m2 s2\<bar>)
         \<and> time_difference ''23:59:59'' ''00:00:01'' = enat 86398"
proof
  show "time_difference (hms h1 m1 s1 @ sfx1) (hms h2 m2 s2 @ sfx2) =
           enat (nat \<bar>seconds_since_midnight h1 m1 s1 - seconds_since_midnight h2 m2 s2\<bar>)"
    using assms
    by (simp add: time_difference_def time_difference_try_def drop_fraction_hms parse_hms_hms
        seconds_since_midnight_def)
  show "time_difference ''23:59:59'' ''00:00:01'' = enat 86398"
    by (simp add: time_difference_def time_difference_try_def drop_fraction_def py_split_def
        parse_hms_def py_int_def py_strip_def is_space_def is_digit_def int_max_str_digits_def
        digits_value_def digit_value_def)
qed

theorem time_difference_hms_witness:
  "time_difference ''23:59:59.750'' ''00:00:01'' = enat 86398
   \<and> time_difference ''10:00:00'' ''10:01:30.5'' = enat 90"
proof -
  have a: "hms 23 59 59 @ ''.750'' = ''23:59:59.750''" "hms 0 0 1 @ [] = ''00:00:01''"
    "hms 10 0 0 @ [] = ''10:00:00''" "hms 10 1 30 @ ''.5'' = ''10:01:30.5''"
    by (simp_all add: hms_def two_digits_def char_of_eq_iff')
  show ?thesis
    using time_difference_hms [of 23 59 59 0 0 1 "''.750''" "[]"]
      time_difference_hms [of 10 0 0 10 1 30 "[]" "''.5''"]
    unfolding a by (simp add: seconds_since_midnight_def)
qed

section \<open>\<open>haversine_distance\<close>\<close>

lemma haversine_a_sym: "haversine_a lat2 lon2 lat1 lon1 = haversine_a lat1 lon1 lat2 lon2"
proof -
  have d: "radians (x - y) / 2 = - (radians (y - x) / 2)" for x y
    by (simp add: radians_def field_simps)
  show ?thesis
    unfolding haversine_a_def Let_def d [of lat1 lat2] d [of lon1 lon2]
    by (simp add: mult.commute)
qed

lemma haversine_a_same: "haversine_a la lo la lo = 0"
  by (simp add: haversine_a_def radians_def)

lemma sin_half_sq: "sin (x / 2) * sin (x / 2) = (1 - cos x) / 2" for x :: real
  using cos_double_sin [of "x / 2"] by (simp add: power2_eq_square)

lemma cos_half_range:
  "0 \<le> (1 - cos x) / 2 \<and> (1 - cos x) / 2 \<le> 1 \<and> 0 \<le> (1 + cos x) / 2 \<and> (1 + cos x) / 2 \<le> 1"
  for x :: real
proof -
  have "- 1 \<le> c \<Longrightarrow> c \<le> 1 \<Longrightarrow>
        0 \<le> (1 - c) / 2 \<and> (1 - c) / 2 \<le> 1 \<and> 0 \<le> (1 + c) / 2 \<and> (1 + c) / 2 \<le> 1"
    for c :: real
    by auto
  from this [OF cos_ge_minus_one cos_le_one] show ?thesis .
qed

lemma haversine_a_range:
  "0 \<le> haversine_a lat1 lon1 lat2 lon2 \<and> haversine_a lat1 lon1 lat2 lon2 \<le> 1"
proof -
  define p1 where "p1 = radians lat1"
  define p2 where "p2 = radians lat2"
  define t where "t = sin (radians (lon2 - lon1) / 2) * sin (radians (lon2 - lon1) / 2)"
  define lw where "lw = sin (radians (lat2 - lat1) / 2) * sin (radians (lat2 - lat1) / 2)"
  define hi where "hi = lw + cos p1 * cos p2"
  have dl: "radians (lat2 - lat1) = p2 - p1"
    by (simp add: radians_def p1_def p2_def algebra_simps diff_divide_distrib)
  have t: "0 \<le> t" "t \<le> 1"
    unfolding t_def sin_half_sq using cos_half_range [of "radians (lon2 - lon1)"] by blast+
  have lw_eq: "lw = (1 - cos (p2 - p1)) / 2" unfolding lw_def sin_half_sq dl ..
  have lw: "0 \<le> lw" "lw \<le> 1"
    unfolding lw_eq using cos_half_range [of "p2 - p1"] by blast+
  have hi_eq: "hi = (1 + cos (p1 + p2)) / 2"
    unfolding hi_def lw_eq by (simp add: cos_diff cos_add field_simps)
  have hi: "0 \<le> hi" "hi \<le> 1"
    unfolding hi_eq using cos_half_range [of "p1 + p2"] by blast+
  have a: "haversine_a lat1 lon1 lat2 lon2 = (1 - t) * lw + t * hi"
    unfolding haversine_a_def Let_def hi_def t_def lw_def p1_def p2_def
    by (simp add: algebra_simps)
  have "0 \<le> (1 - t) * lw" "0 \<le> t * hi" using t lw hi by simp_all
  moreover have "(1 - t) * lw \<le> (1 - t) * 1"
    by (rule mult_left_mono) (use t lw in simp_all)
  moreover have "t * hi \<le> t * 1"
    by (rule mult_left_mono) (use t hi in simp_all)
  ultimately show ?thesis unfolding a by simp
qed

lemma haversine_distance_total:
  "haversine_distance lat1 lon1 lat2 lon2 =
     Inr (6371000 * (2 * atan2 (sqrt (haversine_a lat1 lon1 lat2 lon2))
                               (sqrt (1 - haversine_a lat1 lon1 lat2 lon2))))"
  using haversine_a_range [of lat1 lon1 lat2 lon2]
  by (simp add: haversine_distance_def py_sqrt_def Let_def)

text \<open>
  Claim C9. \<open>haversine_distance\<close> (Earth radius 6371000 m) gives the same result when
  its two points are exchanged, and the distance from a point to itself is 0. Read over
  the real numbers; as a function of its four arguments it has no other effect.
\<close>

theorem haversine_symmetric_zero:
  "haversine_distance lat1 lon1 lat2 lon2 = haversine_distance lat2 lon2 lat1 lon1
   \<and> haversine_distance la lo la lo = Inr 0"
  by (simp add: haversine_distance_total haversine_a_sym [of lat1 lon1 lat2 lon2]
      haversine_a_same atan2_def)

section \<open>The station matcher\<close>












section \<open>Malformed times\<close>

lemma time_difference_infinity_iff:
  "time_difference t1 t2 = \<infinity> \<longleftrightarrow> time_difference_try t1 t2 = None"
  by (auto simp: time_difference_def split: option.splits)






section \<open>Outcomes of report generation\<close>





section \<open>Bulk ingest\<close>


















section \<open>Request validation and the batch size limit\<close>



lemma validate_items_no_size_error: "TooManyItems n \<notin> set (validate_items k ss)"
  by (induction ss arbitrary: k) auto




text \<open>
  The handler's own size check raises inside its \<open>try\<close> block, so a request that
  reached it with more than 1000 samples would be answered with status 500; the schema
  rejects such a request before the handler runs.
\<close>

lemma handler_size_check_gives_500:
  "length (samples request) > 1000 \<Longrightarrow>
   bulk_upload_locations table request = (table, Inl (HTTPException 500 InternalServerError))"
  by (simp add: bulk_upload_locations_def bulk_upload_try_def)






end
